theory Spec2Isabelle
  imports Main "HOL-Library.Word"
begin

section \<open>Scalar constraint translation of protoc-gen-jsonschema (internal/module/scalar.go)\<close>

text \<open>
  The development embeds \<^verbatim>\<open>internal/module/scalar.go\<close>: the regular-expression
  rewriter \<^verbatim>\<open>writeECMAScriptCompatibleRegexp\<close>, the three translators
  \<^verbatim>\<open>schemaForBool\<close>, \<^verbatim>\<open>schemaForBytes\<close>, \<^verbatim>\<open>schemaForString\<close> and
  the dispatcher \<^verbatim>\<open>schemaForScalar\<close>.  Every fatal exit of the Go code
  (\<^verbatim>\<open>m.Failf\<close>, \<^verbatim>\<open>m.CheckErr\<close> with a non-nil error, a run-time panic) is
  a value \<open>Inl e\<close> of the result type.
\<close>

subsection \<open>Fatal outcomes\<close>

datatype ProtoType =
    DoubleT | FloatT | Int64T | UInt64T | Int32T | Fixed64T | Fixed32T
  | BoolT | StringT | GroupT | MessageT | BytesT | UInt32T | EnumT
  | SFixed32 | SFixed64 | SInt32 | SInt64

datatype fatal =
    UnexpectedScalarType ProtoType    \<comment> \<open>\<^verbatim>\<open>m.Failf("unexpected scalar type %q", scalar)\<close>\<close>
  | FailedToParse string              \<comment> \<open>\<^verbatim>\<open>m.CheckErr(err, "failed to parse regular expression")\<close>\<close>
  | FailedToCheckEmpty string         \<comment> \<open>\<^verbatim>\<open>m.CheckErr(err, "failed to check if pattern matches empty string")\<close>\<close>
  | IndexOutOfRange                   \<comment> \<open>the panic of \<^verbatim>\<open>expression.Sub[0]\<close> on an empty slice\<close>

subsection \<open>Strings of the Go standard library\<close>

definition bslash :: char where
  "bslash = CHR 0x5C"

text \<open>\<^verbatim>\<open>strconv.Itoa\<close>: the decimal rendering of an integer, with a leading minus sign
  for a negative one.\<close>

fun digitsOf :: "nat \<Rightarrow> string" where
  "digitsOf n =
     (if n < 10 then [''0123456789'' ! n]
      else digitsOf (n div 10) @ [''0123456789'' ! (n mod 10)])"

declare digitsOf.simps [simp del]

definition Itoa :: "int \<Rightarrow> string" where
  "Itoa i = (if i < 0 then CHR ''-'' # digitsOf (nat (- i)) else digitsOf (nat i))"

text \<open>\<^verbatim>\<open>regexp.QuoteMeta\<close>: every byte among \<^verbatim>\<open>\.+*?()|[]{}^$\<close> is preceded by a
  backslash, every other byte is copied.\<close>

definition special :: "char \<Rightarrow> bool" where
  "special b \<longleftrightarrow> b \<in> set (bslash # ''.+*?()|[]{}^$'')"

definition QuoteMeta :: "string \<Rightarrow> string" where
  "QuoteMeta s = concat (map (\<lambda>b. if special b then [bslash, b] else [b]) s)"

subsection \<open>The syntax tree of \<^verbatim>\<open>regexp/syntax\<close>\<close>

text \<open>The operators of \<^verbatim>\<open>syntax.Op\<close>, in the order of their declaration; \<open>opCode\<close> is
  the numeric value that Go's comparison of two operators compares.\<close>

datatype Op =
    OpNoMatch | OpEmptyMatch | OpLiteral | OpCharClass | OpAnyCharNotNL | OpAnyChar
  | OpBeginLine | OpEndLine | OpBeginText | OpEndText | OpWordBoundary | OpNoWordBoundary
  | OpCapture | OpStar | OpPlus | OpQuest | OpRepeat | OpConcat | OpAlternate

fun opCode :: "Op \<Rightarrow> nat" where
  "opCode OpNoMatch = 1"
| "opCode OpEmptyMatch = 2"
| "opCode OpLiteral = 3"
| "opCode OpCharClass = 4"
| "opCode OpAnyCharNotNL = 5"
| "opCode OpAnyChar = 6"
| "opCode OpBeginLine = 7"
| "opCode OpEndLine = 8"
| "opCode OpBeginText = 9"
| "opCode OpEndText = 10"
| "opCode OpWordBoundary = 11"
| "opCode OpNoWordBoundary = 12"
| "opCode OpCapture = 13"
| "opCode OpStar = 14"
| "opCode OpPlus = 15"
| "opCode OpQuest = 16"
| "opCode OpRepeat = 17"
| "opCode OpConcat = 18"
| "opCode OpAlternate = 19"

type_synonym rune = "32 word"

text \<open>\<^verbatim>\<open>syntax.Regexp\<close>: operator, flags, subexpressions, runes, the bounds of a
  repeat, capture index and capture name.\<close>

datatype Regexp =
  Regexp (Op: Op) (Flags: "16 word") (Sub: "Regexp list") (Rune: "rune list")
         (Min: int) (Max: int) (Cap: int) (Name: string)

subsection \<open>The rewriter\<close>

text \<open>
  \<^verbatim>\<open>writeECMAScriptCompatibleRegexp\<close> (scalar.go, lines 230 to 296).  The text written to
  the \<^verbatim>\<open>io.StringWriter\<close> is the result.  The default branch calls the library's
  \<^verbatim>\<open>expression.String()\<close>, which is the parameter \<open>str\<close>.  The loops over
  \<^verbatim>\<open>expression.Sub\<close> of the concatenation and alternation branches are
  \<open>writeConcat\<close> and \<open>writeAlternate\<close>, the latter with the loop index \<open>i\<close>.
\<close>

fun writeECMAScriptCompatibleRegexp :: "(Regexp \<Rightarrow> string) \<Rightarrow> Regexp \<Rightarrow> fatal + string"
  and writeConcat :: "(Regexp \<Rightarrow> string) \<Rightarrow> Regexp list \<Rightarrow> fatal + string"
  and writeAlternate :: "(Regexp \<Rightarrow> string) \<Rightarrow> nat \<Rightarrow> Regexp list \<Rightarrow> fatal + string"
where
  "writeECMAScriptCompatibleRegexp str (Regexp op fl sub rn mn mx cp nm) =
     (if op = OpAnyCharNotNL then Inr ''.''
      else if op = OpAnyChar then Inr (''['' @ [bslash] @ ''s'' @ [bslash] @ ''S]'')
      else if op = OpBeginLine \<or> op = OpBeginText then Inr ''^''
      else if op = OpEndLine \<or> op = OpEndText then Inr ''$''
      else if op = OpCapture then
        (case sub of
           [] \<Rightarrow> Inl IndexOutOfRange
         | subexpression # _ \<Rightarrow>
             (case writeECMAScriptCompatibleRegexp str subexpression of
                Inl e \<Rightarrow> Inl e
              | Inr t \<Rightarrow> Inr (''('' @ t @ '')'')))
      else if op = OpStar \<or> op = OpPlus \<or> op = OpQuest \<or> op = OpRepeat then
        (case sub of
           [] \<Rightarrow> Inl IndexOutOfRange
         | subexpression # _ \<Rightarrow>
             (case writeECMAScriptCompatibleRegexp str subexpression of
                Inl e \<Rightarrow> Inl e
              | Inr t \<Rightarrow>
                  Inr ((if opCode (Op subexpression) > opCode OpCapture
                           \<or> (Op subexpression = OpLiteral \<and> length (Rune subexpression) > 1)
                        then ''(?:'' @ t @ '')''
                        else t)
                       @ (if op = OpStar then ''*''
                          else if op = OpPlus then ''+''
                          else if op = OpQuest then ''?''
                          else ''{'' @ Itoa mn
                               @ (if mx \<noteq> mn
                                  then '','' @ (if mx \<ge> 0 then Itoa mx else '''')
                                  else '''')
                               @ ''}''))))
      else if op = OpConcat then writeConcat str sub
      else if op = OpAlternate then writeAlternate str 0 sub
      else Inr (str (Regexp op fl sub rn mn mx cp nm)))"
| "writeConcat str [] = Inr ''''"
| "writeConcat str (subexpression # rest) =
     (case writeECMAScriptCompatibleRegexp str subexpression of
        Inl e \<Rightarrow> Inl e
      | Inr t \<Rightarrow>
          (case writeConcat str rest of
             Inl e \<Rightarrow> Inl e
           | Inr u \<Rightarrow>
               Inr ((if Op subexpression = OpAlternate then ''(?:'' @ t @ '')'' else t) @ u)))"
| "writeAlternate str i [] = Inr ''''"
| "writeAlternate str i (subexpression # rest) =
     (case writeECMAScriptCompatibleRegexp str subexpression of
        Inl e \<Rightarrow> Inl e
      | Inr t \<Rightarrow>
          (case writeAlternate str (Suc i) rest of
             Inl e \<Rightarrow> Inl e
           | Inr u \<Rightarrow> Inr ((if i > 0 then ''|'' else '''') @ t @ u)))"

subsection \<open>The document-schema object model\<close>

text \<open>
  Modelled from the spec: the package \<^verbatim>\<open>internal/jsonschema\<close> is not among the
  sources.  The spec's data model gives a schema node the attributes \<^verbatim>\<open>Type\<close>,
  \<^verbatim>\<open>Const\<close>, \<^verbatim>\<open>Enum\<close>, \<^verbatim>\<open>Pattern\<close>, \<^verbatim>\<open>MinLength\<close>, \<^verbatim>\<open>MaxLength\<close>,
  \<^verbatim>\<open>Format\<close> and the composition operators \<^verbatim>\<open>AllOf\<close>, \<^verbatim>\<open>AnyOf\<close>,
  \<^verbatim>\<open>OneOf\<close>, \<^verbatim>\<open>Not\<close> over child nodes, built by constructors for string and
  boolean nodes and for the composition operators.  The record \<open>StringSchema\<close> holds the
  attributes scalar.go assigns on a string node (\<^verbatim>\<open>Title\<close> among them);
  \<open>StringNode a cs\<close> is the string-typed node with attributes \<open>a\<close> and
  \<^verbatim>\<open>OneOf\<close> children \<open>cs\<close>; \<open>BooleanNode c\<close> is the boolean-typed node with
  \<^verbatim>\<open>Const\<close> \<open>c\<close>.  \<open>NewStringSchema\<close> is the node with every attribute at its zero
  value.
\<close>

type_synonym uint64 = "64 word"
type_synonym bytes = "8 word list"

datatype StringFormat =
    StringFormatEmail | StringFormatHostname | StringFormatIPv4 | StringFormatIPv6
  | StringFormatURI | StringFormatURIReference

record StringSchema =
  Title :: string
  Const :: "string option"
  Enum :: "string list"
  Format :: "StringFormat option"
  MaxLength :: "uint64 option"
  MinLength :: "uint64 option"
  Pattern :: string

datatype Schema =
    StringNode StringSchema "Schema list"
  | BooleanNode "bool option"
  | AllOf "Schema list"
  | AnyOf "Schema list"
  | Not Schema

definition NewStringSchema :: StringSchema where
  "NewStringSchema =
     \<lparr>Title = '''', Const = None, Enum = [], Format = None,
      MaxLength = None, MinLength = None, Pattern = ''''\<rparr>"

definition NewBooleanSchema :: Schema where
  "NewBooleanSchema = BooleanNode None"

subsection \<open>The rule sets of \<^verbatim>\<open>buf/validate\<close>\<close>

text \<open>
  The generated messages \<^verbatim>\<open>validate.BoolRules\<close>, \<^verbatim>\<open>validate.BytesRules\<close>,
  \<^verbatim>\<open>validate.StringRules\<close> and \<^verbatim>\<open>validate.FieldConstraints\<close>, with the fields
  scalar.go reads.  A pointer field is an \<open>option\<close> (\<open>None\<close> is \<^verbatim>\<open>nil\<close>); a slice
  is a list, of which Go reads only the length and the elements.  Field \<open>F\<close> of message
  \<open>M\<close> is \<open>M_F\<close>.
\<close>

record BoolRules =
  BoolRules_Const :: "bool option"

datatype BytesWellKnown = BytesRules_Ip | BytesRules_Ipv4 | BytesRules_Ipv6

record BytesRules =
  BytesRules_Const :: bytes
  BytesRules_Len :: "uint64 option"
  BytesRules_MinLen :: "uint64 option"
  BytesRules_MaxLen :: "uint64 option"
  BytesRules_Pattern :: "string option"
  BytesRules_Prefix :: bytes
  BytesRules_Suffix :: bytes
  BytesRules_Contains :: bytes
  BytesRules_In :: "bytes list"
  BytesRules_NotIn :: "bytes list"
  BytesRules_WellKnown :: "BytesWellKnown option"

text \<open>The variants of the \<^verbatim>\<open>well_known\<close> oneof of string rules.  \<open>StringRules_Uuid\<close>
  stands for the variants that the type switch of \<^verbatim>\<open>schemaForString\<close> does not list.\<close>

datatype StringWellKnown =
    StringRules_Address | StringRules_Email | StringRules_Hostname | StringRules_Ip
  | StringRules_Ipv4 | StringRules_Ipv6 | StringRules_Uri | StringRules_UriRef
  | StringRules_Uuid

record StringRules =
  StringRules_Const :: "string option"
  StringRules_Contains :: "string option"
  StringRules_In :: "string list"
  StringRules_Len :: "uint64 option"
  StringRules_LenBytes :: "uint64 option"
  StringRules_MinBytes :: "uint64 option"
  StringRules_MaxLen :: "uint64 option"
  StringRules_MinLen :: "uint64 option"
  StringRules_NotContains :: "string option"
  StringRules_NotIn :: "string list"
  StringRules_Pattern :: "string option"
  StringRules_Prefix :: "string option"
  StringRules_Suffix :: "string option"
  StringRules_WellKnown :: "StringWellKnown option"

text \<open>\<^verbatim>\<open>FieldConstraints\<close>: the ignore-empty flag and what the getters
  \<^verbatim>\<open>GetBool\<close>, \<^verbatim>\<open>GetBytes\<close>, \<^verbatim>\<open>GetString_\<close> (here \<open>GetString\<close>) return.  The getters of a
  \<^verbatim>\<open>nil\<close> message return \<^verbatim>\<open>nil\<close>.\<close>

record FieldConstraints =
  IgnoreEmpty :: bool
  FieldConstraints_Bool :: "BoolRules option"
  FieldConstraints_Bytes :: "BytesRules option"
  FieldConstraints_String :: "StringRules option"

definition GetBool :: "FieldConstraints option \<Rightarrow> BoolRules option" where
  "GetBool constraints = (case constraints of None \<Rightarrow> None | Some c \<Rightarrow> FieldConstraints_Bool c)"

definition GetBytes :: "FieldConstraints option \<Rightarrow> BytesRules option" where
  "GetBytes constraints = (case constraints of None \<Rightarrow> None | Some c \<Rightarrow> FieldConstraints_Bytes c)"

definition GetString :: "FieldConstraints option \<Rightarrow> StringRules option" where
  "GetString constraints = (case constraints of None \<Rightarrow> None | Some c \<Rightarrow> FieldConstraints_String c)"

subsection \<open>What the module calls outside scalar.go\<close>

text \<open>
  The functions that scalar.go calls and that are too large to embed are parameters:
  \<^item> \<open>Parse p\<close> is \<^verbatim>\<open>syntax.Parse(p, syntax.Perl)\<close>, \<open>None\<close> when it returns an error;
  \<^item> \<open>RegexpString e\<close> is \<^verbatim>\<open>e.String()\<close>;
  \<^item> \<open>MatchString p s\<close> is \<^verbatim>\<open>regexp.MatchString(p, s)\<close>, \<open>None\<close> when it returns
    an error;
  \<^item> \<open>IsNumeric t\<close> is \<^verbatim>\<open>t.IsNumeric()\<close> of protoc-gen-star;
  \<^item> \<open>schemaForNumericScalar t c\<close> is the numeric translator
    \<^verbatim>\<open>m.schemaForNumericScalar(t, c)\<close> of numeric.go, which is not among the sources:
    \<open>Inl\<close> when it aborts the run, \<open>Inr\<close> of the schema and the required flag
    otherwise.
\<close>

record Library =
  Parse :: "string \<Rightarrow> Regexp option"
  RegexpString :: "Regexp \<Rightarrow> string"
  MatchString :: "string \<Rightarrow> string \<Rightarrow> bool option"
  IsNumeric :: "ProtoType \<Rightarrow> bool"
  schemaForNumericScalar :: "ProtoType \<Rightarrow> FieldConstraints option \<Rightarrow> fatal + Schema \<times> bool"

subsection \<open>The boolean and bytes translators\<close>

text \<open>\<^verbatim>\<open>schemaForBool\<close> (lines 46 to 59).\<close>

definition schemaForBool :: "BoolRules option \<Rightarrow> Schema \<times> bool" where
  "schemaForBool rules =
     (case rules of
        None \<Rightarrow> (NewBooleanSchema, False)
      | Some r \<Rightarrow>
          (case BoolRules_Const r of
             None \<Rightarrow> (NewBooleanSchema, False)
           | Some c \<Rightarrow> (BooleanNode (Some c), True)))"

text \<open>\<^verbatim>\<open>schemaForBytes\<close> (lines 61 to 89).  The two patterns are the raw string
  literals of the source, in which \<^verbatim>\<open>\r\<close> and \<^verbatim>\<open>\n\<close> are a backslash and a letter.\<close>

definition standardPattern :: string where
  "standardPattern = ''^['' @ [bslash] @ ''r'' @ [bslash] @ ''nA-Za-z0-9+/]*$''"

definition urlSafePattern :: string where
  "urlSafePattern = ''^['' @ [bslash] @ ''r'' @ [bslash] @ ''nA-Za-z0-9_-]*$''"

definition schemaForBytes :: "BytesRules option \<Rightarrow> bool \<Rightarrow> Schema \<times> bool" where
  "schemaForBytes rules ignoreEmpty =
     (let standard = NewStringSchema
            \<lparr>Title := ''Standard base64 encoding'', Pattern := standardPattern\<rparr>;
          urlSafe = NewStringSchema
            \<lparr>Title := ''URL-safe base64 encoding'', Pattern := urlSafePattern\<rparr>;
          schema = StringNode NewStringSchema [StringNode standard [], StringNode urlSafe []];
          required =
            (case rules of
               None \<Rightarrow> False
             | Some r \<Rightarrow>
                 \<not> ignoreEmpty \<and>
                 (length (BytesRules_Const r) > 0 \<or>
                  length (BytesRules_Contains r) > 0 \<or>
                  length (BytesRules_In r) > 0 \<or>
                  BytesRules_MinLen r \<noteq> None \<or>
                  BytesRules_Pattern r \<noteq> None \<or>
                  length (BytesRules_Prefix r) > 0 \<or>
                  length (BytesRules_Suffix r) > 0 \<or>
                  BytesRules_WellKnown r \<noteq> None))
      in (schema, required))"

subsection \<open>The string translator\<close>

text \<open>\<^verbatim>\<open>makeRegexpCompatibleWithECMAScript\<close> (lines 220 to 228) and
  \<^verbatim>\<open>matchesEmptyString\<close> (lines 298 to 303).\<close>

definition makeRegexpCompatibleWithECMAScript :: "Library \<Rightarrow> string \<Rightarrow> fatal + string" where
  "makeRegexpCompatibleWithECMAScript lib pattern =
     (case Parse lib pattern of
        None \<Rightarrow> Inl (FailedToParse pattern)
      | Some expression \<Rightarrow> writeECMAScriptCompatibleRegexp (RegexpString lib) expression)"

definition matchesEmptyString :: "Library \<Rightarrow> string \<Rightarrow> fatal + bool" where
  "matchesEmptyString lib pattern =
     (case MatchString lib pattern '''' of
        None \<Rightarrow> Inl (FailedToCheckEmpty pattern)
      | Some match \<Rightarrow> Inr match)"

text \<open>\<^verbatim>\<open>schemaForStringFormats\<close> (lines 207 to 218).\<close>

definition schemaForStringFormats :: "StringFormat list \<Rightarrow> Schema" where
  "schemaForStringFormats formats =
     AnyOf (map (\<lambda>format. StringNode (NewStringSchema\<lparr>Format := Some format\<rparr>) []) formats)"

text \<open>
  The local variables of \<^verbatim>\<open>schemaForString\<close> (lines 91 to 205).  In the source,
  \<^verbatim>\<open>schemas[0]\<close> is the pointer \<^verbatim>\<open>schema\<close>, so every later assignment to a field
  of \<^verbatim>\<open>schema\<close> shows in the first element of \<^verbatim>\<open>schemas\<close>.  The state keeps
  \<open>schema\<close> once, and \<open>appended\<close> is \<^verbatim>\<open>schemas[1:]\<close>, the elements appended
  after it.
\<close>

record StringState =
  schema :: StringSchema
  appended :: "Schema list"
  patterns :: "string list"
  required :: bool

definition initialState :: StringState where
  "initialState = \<lparr>schema = NewStringSchema, appended = [], patterns = [], required = False\<rparr>"

text \<open>One function for each \<^verbatim>\<open>if\<close> statement of the block
  \<^verbatim>\<open>if rules != nil { ... }\<close>, in the order of the source.\<close>

definition ruleConst :: "StringRules \<Rightarrow> bool \<Rightarrow> StringState \<Rightarrow> StringState" where
  \<comment> \<open>lines 100 to 103\<close>
  "ruleConst rules ignoreEmpty st =
     (case StringRules_Const rules of
        None \<Rightarrow> st
      | Some c \<Rightarrow> st\<lparr>schema := (schema st)\<lparr>Const := Some c\<rparr>, required := \<not> ignoreEmpty\<rparr>)"

definition ruleContains :: "StringRules \<Rightarrow> bool \<Rightarrow> StringState \<Rightarrow> StringState" where
  \<comment> \<open>lines 105 to 108\<close>
  "ruleContains rules ignoreEmpty st =
     (case StringRules_Contains rules of
        None \<Rightarrow> st
      | Some c \<Rightarrow> st\<lparr>patterns := patterns st @ [QuoteMeta c], required := \<not> ignoreEmpty\<rparr>)"

definition ruleIn :: "StringRules \<Rightarrow> bool \<Rightarrow> StringState \<Rightarrow> StringState" where
  \<comment> \<open>lines 110 to 113\<close>
  "ruleIn rules ignoreEmpty st =
     (if length (StringRules_In rules) > 0
      then st\<lparr>schema := (schema st)\<lparr>Enum := StringRules_In rules\<rparr>, required := \<not> ignoreEmpty\<rparr>
      else st)"

definition ruleLen :: "StringRules \<Rightarrow> bool \<Rightarrow> StringState \<Rightarrow> StringState" where
  \<comment> \<open>lines 115 to 119\<close>
  "ruleLen rules ignoreEmpty st =
     (case StringRules_Len rules of
        None \<Rightarrow> st
      | Some n \<Rightarrow>
          st\<lparr>schema := (schema st)\<lparr>MaxLength := Some n, MinLength := Some n\<rparr>,
             required := \<not> ignoreEmpty\<rparr>)"

definition ruleLenBytes :: "StringRules \<Rightarrow> bool \<Rightarrow> StringState \<Rightarrow> StringState" where
  \<comment> \<open>lines 121 to 123\<close>
  "ruleLenBytes rules ignoreEmpty st =
     (if StringRules_LenBytes rules \<noteq> None \<or> StringRules_MinBytes rules \<noteq> None
      then st\<lparr>required := \<not> ignoreEmpty\<rparr>
      else st)"

definition ruleMaxLen :: "StringRules \<Rightarrow> StringState \<Rightarrow> StringState" where
  \<comment> \<open>lines 125 to 127\<close>
  "ruleMaxLen rules st =
     (case StringRules_MaxLen rules of
        None \<Rightarrow> st
      | Some n \<Rightarrow> st\<lparr>schema := (schema st)\<lparr>MaxLength := Some n\<rparr>\<rparr>)"

definition ruleMinLen :: "StringRules \<Rightarrow> bool \<Rightarrow> StringState \<Rightarrow> StringState" where
  \<comment> \<open>lines 129 to 132\<close>
  "ruleMinLen rules ignoreEmpty st =
     (case StringRules_MinLen rules of
        None \<Rightarrow> st
      | Some n \<Rightarrow> st\<lparr>schema := (schema st)\<lparr>MinLength := Some n\<rparr>, required := \<not> ignoreEmpty\<rparr>)"

definition ruleNotContains :: "StringRules \<Rightarrow> StringState \<Rightarrow> StringState" where
  \<comment> \<open>lines 134 to 138\<close>
  "ruleNotContains rules st =
     (case StringRules_NotContains rules of
        None \<Rightarrow> st
      | Some c \<Rightarrow>
          st\<lparr>appended :=
               appended st @ [Not (StringNode (NewStringSchema\<lparr>Pattern := QuoteMeta c\<rparr>) [])]\<rparr>)"

definition ruleNotIn :: "StringRules \<Rightarrow> StringState \<Rightarrow> StringState" where
  \<comment> \<open>lines 140 to 144\<close>
  "ruleNotIn rules st =
     (if length (StringRules_NotIn rules) > 0
      then st\<lparr>appended :=
                appended st @ [Not (StringNode (NewStringSchema\<lparr>Enum := StringRules_NotIn rules\<rparr>) [])]\<rparr>
      else st)"

definition rulePattern :: "Library \<Rightarrow> StringRules \<Rightarrow> bool \<Rightarrow> StringState \<Rightarrow> fatal + StringState" where
  \<comment> \<open>lines 146 to 151\<close>
  "rulePattern lib rules ignoreEmpty st =
     (case StringRules_Pattern rules of
        None \<Rightarrow> Inr st
      | Some p \<Rightarrow>
          (case makeRegexpCompatibleWithECMAScript lib p of
             Inl e \<Rightarrow> Inl e
           | Inr t \<Rightarrow>
               (case matchesEmptyString lib p of
                  Inl e \<Rightarrow> Inl e
                | Inr match \<Rightarrow>
                    Inr (st\<lparr>patterns := patterns st @ [t],
                            required := (if \<not> match then \<not> ignoreEmpty else required st)\<rparr>))))"

definition rulePrefix :: "StringRules \<Rightarrow> bool \<Rightarrow> StringState \<Rightarrow> StringState" where
  \<comment> \<open>lines 153 to 156\<close>
  "rulePrefix rules ignoreEmpty st =
     (case StringRules_Prefix rules of
        None \<Rightarrow> st
      | Some p \<Rightarrow> st\<lparr>patterns := patterns st @ [''^'' @ QuoteMeta p], required := \<not> ignoreEmpty\<rparr>)"

definition ruleSuffix :: "StringRules \<Rightarrow> bool \<Rightarrow> StringState \<Rightarrow> StringState" where
  \<comment> \<open>lines 158 to 161\<close>
  "ruleSuffix rules ignoreEmpty st =
     (case StringRules_Suffix rules of
        None \<Rightarrow> st
      | Some s \<Rightarrow> st\<lparr>patterns := patterns st @ [QuoteMeta s @ ''$''], required := \<not> ignoreEmpty\<rparr>)"

definition setFormat :: "StringFormat \<Rightarrow> StringState \<Rightarrow> StringState" where
  "setFormat format st = st\<lparr>schema := (schema st)\<lparr>Format := Some format\<rparr>\<rparr>"

definition ruleWellKnown :: "StringRules \<Rightarrow> bool \<Rightarrow> StringState \<Rightarrow> StringState" where
  \<comment> \<open>lines 163 to 191\<close>
  "ruleWellKnown rules ignoreEmpty st =
     (case StringRules_WellKnown rules of
        None \<Rightarrow> st
      | Some wk \<Rightarrow>
          (case wk of
             StringRules_Address \<Rightarrow>
               st\<lparr>appended := appended st @
                    [schemaForStringFormats
                       [StringFormatHostname, StringFormatIPv4, StringFormatIPv6]]\<rparr>
           | StringRules_Email \<Rightarrow> setFormat StringFormatEmail st
           | StringRules_Hostname \<Rightarrow> setFormat StringFormatHostname st
           | StringRules_Ip \<Rightarrow>
               st\<lparr>appended := appended st @
                    [schemaForStringFormats [StringFormatIPv4, StringFormatIPv6]]\<rparr>
           | StringRules_Ipv4 \<Rightarrow> setFormat StringFormatIPv4 st
           | StringRules_Ipv6 \<Rightarrow> setFormat StringFormatIPv6 st
           | StringRules_Uri \<Rightarrow> setFormat StringFormatURI st
           | StringRules_UriRef \<Rightarrow> setFormat StringFormatURIReference st
           | StringRules_Uuid \<Rightarrow> st)
          \<lparr>required := \<not> ignoreEmpty\<rparr>)"

text \<open>The block \<^verbatim>\<open>if rules != nil { ... }\<close> (lines 99 to 192): the rules before
  \<^verbatim>\<open>Pattern\<close>, the \<^verbatim>\<open>Pattern\<close> rule, which may abort the run, and the rules after it.\<close>

definition rulesBeforePattern :: "StringRules \<Rightarrow> bool \<Rightarrow> StringState" where
  "rulesBeforePattern rules ignoreEmpty =
     ruleNotIn rules
       (ruleNotContains rules
         (ruleMinLen rules ignoreEmpty
           (ruleMaxLen rules
             (ruleLenBytes rules ignoreEmpty
               (ruleLen rules ignoreEmpty
                 (ruleIn rules ignoreEmpty
                   (ruleContains rules ignoreEmpty
                     (ruleConst rules ignoreEmpty initialState))))))))"

definition rulesAfterPattern :: "StringRules \<Rightarrow> bool \<Rightarrow> StringState \<Rightarrow> StringState" where
  "rulesAfterPattern rules ignoreEmpty st =
     ruleWellKnown rules ignoreEmpty
       (ruleSuffix rules ignoreEmpty
         (rulePrefix rules ignoreEmpty st))"

definition collectStringRules :: "Library \<Rightarrow> StringRules option \<Rightarrow> bool \<Rightarrow> fatal + StringState" where
  "collectStringRules lib rules ignoreEmpty =
     (case rules of
        None \<Rightarrow> Inr initialState
      | Some r \<Rightarrow>
          (case rulePattern lib r ignoreEmpty (rulesBeforePattern r ignoreEmpty) of
             Inl e \<Rightarrow> Inl e
           | Inr st \<Rightarrow> Inr (rulesAfterPattern r ignoreEmpty st)))"

text \<open>The merge of the pattern fragments and the return (lines 194 to 204).\<close>

definition patternSchema :: "string \<Rightarrow> Schema" where
  "patternSchema pattern = StringNode (NewStringSchema\<lparr>Pattern := pattern\<rparr>) []"

definition mergePatterns :: "StringState \<Rightarrow> Schema list" where
  "mergePatterns st =
     (if length (patterns st) = 1
      then StringNode ((schema st)\<lparr>Pattern := patterns st ! 0\<rparr>) [] # appended st
      else StringNode (schema st) [] # appended st @ map patternSchema (patterns st))"

definition schemaForString :: "Library \<Rightarrow> StringRules option \<Rightarrow> bool \<Rightarrow> fatal + Schema \<times> bool" where
  "schemaForString lib rules ignoreEmpty =
     (case collectStringRules lib rules ignoreEmpty of
        Inl e \<Rightarrow> Inl e
      | Inr st \<Rightarrow> Inr (AllOf (mergePatterns st), required st))"

subsection \<open>The dispatcher\<close>

text \<open>\<^verbatim>\<open>schemaForScalar\<close> (lines 19 to 44).\<close>

definition schemaForScalar ::
  "Library \<Rightarrow> ProtoType \<Rightarrow> FieldConstraints option \<Rightarrow> fatal + Schema \<times> bool" where
  "schemaForScalar lib scalar constraints =
     (if IsNumeric lib scalar then schemaForNumericScalar lib scalar constraints
      else
        (let ignoreEmpty = (case constraints of None \<Rightarrow> False | Some c \<Rightarrow> IgnoreEmpty c)
         in (case scalar of
               BoolT \<Rightarrow> Inr (schemaForBool (GetBool constraints))
             | BytesT \<Rightarrow> Inr (schemaForBytes (GetBytes constraints) ignoreEmpty)
             | StringT \<Rightarrow> schemaForString lib (GetString constraints) ignoreEmpty
             | _ \<Rightarrow> Inl (UnexpectedScalarType scalar))))"

subsection \<open>Definitions used in the statements\<close>

text \<open>\<open>rendered str e\<close> is the text the rewriter writes for \<open>e\<close> (empty when the rewriter
  panics); \<open>joinWith sep xs\<close> puts \<open>sep\<close> between the elements of \<open>xs\<close>;
  \<open>wellFormed e\<close> holds when every capture, star, plus, quest and repeat node of \<open>e\<close> has
  a subexpression, as the trees returned by \<^verbatim>\<open>syntax.Parse\<close> do.\<close>

definition rendered :: "(Regexp \<Rightarrow> string) \<Rightarrow> Regexp \<Rightarrow> string" where
  "rendered str e = (case writeECMAScriptCompatibleRegexp str e of Inl _ \<Rightarrow> '''' | Inr t \<Rightarrow> t)"

fun joinWith :: "string \<Rightarrow> string list \<Rightarrow> string" where
  "joinWith sep [] = ''''"
| "joinWith sep [x] = x"
| "joinWith sep (x # y # ys) = x @ sep @ joinWith sep (y # ys)"

fun wellFormed :: "Regexp \<Rightarrow> bool" where
  "wellFormed (Regexp op fl sub rn mn mx cp nm) \<longleftrightarrow>
     ((op = OpCapture \<or> op = OpStar \<or> op = OpPlus \<or> op = OpQuest \<or> op = OpRepeat \<longrightarrow> sub \<noteq> [])
      \<and> (\<forall>s \<in> set sub. wellFormed s))"

text \<open>Trees, rule sets and a small library for the examples: \<open>exampleParse\<close> parses
  the patterns \<^verbatim>\<open>a*\<close> and \<^verbatim>\<open>a+\<close> and rejects every other text,
  \<open>exampleString\<close> renders three literals, \<open>exampleMatchString\<close> answers for the same
  two patterns, and the numeric translator of the example returns the empty conjunction.\<close>

definition node :: "Op \<Rightarrow> Regexp list \<Rightarrow> Regexp" where
  "node op sub = Regexp op 0 sub [] 0 0 0 ''''"

definition literal :: "rune list \<Rightarrow> Regexp" where
  "literal rn = Regexp OpLiteral 0 [] rn 0 0 0 ''''"

definition repeat :: "int \<Rightarrow> int \<Rightarrow> Regexp \<Rightarrow> Regexp" where
  "repeat mn mx e = Regexp OpRepeat 0 [e] [] mn mx 0 ''''"

definition emptyStringRules :: StringRules where
  "emptyStringRules =
     \<lparr>StringRules_Const = None, StringRules_Contains = None, StringRules_In = [],
      StringRules_Len = None, StringRules_LenBytes = None, StringRules_MinBytes = None,
      StringRules_MaxLen = None, StringRules_MinLen = None, StringRules_NotContains = None,
      StringRules_NotIn = [], StringRules_Pattern = None, StringRules_Prefix = None,
      StringRules_Suffix = None, StringRules_WellKnown = None\<rparr>"

definition emptyBytesRules :: BytesRules where
  "emptyBytesRules =
     \<lparr>BytesRules_Const = [], BytesRules_Len = None, BytesRules_MinLen = None,
      BytesRules_MaxLen = None, BytesRules_Pattern = None, BytesRules_Prefix = [],
      BytesRules_Suffix = [], BytesRules_Contains = [], BytesRules_In = [],
      BytesRules_NotIn = [], BytesRules_WellKnown = None\<rparr>"

definition exampleParse :: "string \<Rightarrow> Regexp option" where
  "exampleParse p =
     (if p = ''a*'' then Some (node OpStar [literal [97]])
      else if p = ''a+'' then Some (node OpPlus [literal [97]])
      else None)"

definition exampleString :: "Regexp \<Rightarrow> string" where
  "exampleString e =
     (if e = literal [97] then ''a''
      else if e = literal [97, 98] then ''ab''
      else if e = literal [99, 100] then ''cd''
      else '''')"

definition exampleMatchString :: "string \<Rightarrow> string \<Rightarrow> bool option" where
  "exampleMatchString p s =
     (if p = ''a*'' then Some (s = '''')
      else if p = ''a+'' then Some False
      else None)"

definition exampleIsNumeric :: "ProtoType \<Rightarrow> bool" where
  "exampleIsNumeric t \<longleftrightarrow>
     t \<in> set [DoubleT, FloatT, Int64T, UInt64T, Int32T, Fixed64T, Fixed32T, UInt32T,
               SFixed32, SFixed64, SInt32, SInt64]"

definition exampleLibrary :: Library where
  "exampleLibrary =
     \<lparr>Parse = exampleParse, RegexpString = exampleString, MatchString = exampleMatchString,
      IsNumeric = exampleIsNumeric,
      schemaForNumericScalar = (\<lambda>t c. Inr (AllOf [], False))\<rparr>"

text \<open>\<open>keepsOrSets ignoreEmpty st st'\<close>: from \<open>st\<close> to \<open>st'\<close> the required flag
  is kept or set to \<open>\<not> ignoreEmpty\<close>, no pattern fragment is dropped and the pattern
  attribute of the base schema is not touched.\<close>

definition keepsOrSets :: "bool \<Rightarrow> StringState \<Rightarrow> StringState \<Rightarrow> bool" where
  "keepsOrSets ignoreEmpty st st' \<longleftrightarrow>
     (required st' = (\<not> ignoreEmpty) \<or> required st' = required st)
     \<and> set (patterns st) \<subseteq> set (patterns st')
     \<and> Pattern (schema st') = Pattern (schema st)"

section \<open>Properties\<close>

subsection \<open>The rewriter on rendered children\<close>

lemma writeConcat_rendered:
  "\<forall>s \<in> set es. writeECMAScriptCompatibleRegexp str s = Inr (rendered str s) \<Longrightarrow>
   writeConcat str es =
     Inr (concat (map (\<lambda>s. if Op s = OpAlternate then ''(?:'' @ rendered str s @ '')''
                            else rendered str s) es))"
  by (induction es) simp_all

lemma writeAlternate_rendered_pos:
  "\<forall>s \<in> set es. writeECMAScriptCompatibleRegexp str s = Inr (rendered str s) \<Longrightarrow> i > 0 \<Longrightarrow>
   writeAlternate str i es = Inr (concat (map (\<lambda>s. ''|'' @ rendered str s) es))"
  by (induction es arbitrary: i) simp_all

lemma joinWith_Cons:
  "joinWith sep (x # xs) = x @ concat (map (\<lambda>y. sep @ y) xs)"
  by (induction xs arbitrary: x) simp_all

lemma writeAlternate_rendered:
  assumes "\<forall>s \<in> set es. writeECMAScriptCompatibleRegexp str s = Inr (rendered str s)"
  shows "writeAlternate str 0 es = Inr (joinWith ''|'' (map (rendered str) es))"
proof (cases es)
  case Nil
  then show ?thesis by simp
next
  case (Cons s rest)
  with assms have "writeAlternate str (Suc 0) rest = Inr (concat (map (\<lambda>s. ''|'' @ rendered str s) rest))"
    by (intro writeAlternate_rendered_pos) simp_all
  with Cons assms show ?thesis
    by (simp add: joinWith_Cons comp_def)
qed

lemma rendered_ok:
  "writeECMAScriptCompatibleRegexp str e = Inr t \<Longrightarrow> rendered str e = t"
  by (simp add: rendered_def)

lemma write_wellFormed:
  "wellFormed e \<Longrightarrow> writeECMAScriptCompatibleRegexp str e = Inr (rendered str e)"
proof (induction e)
  case (Regexp op fl sub rn mn mx cp nm)
  have kids: "\<forall>s \<in> set sub. writeECMAScriptCompatibleRegexp str s = Inr (rendered str s)"
    using Regexp by simp
  have c: "writeConcat str sub = Inr (concat (map (\<lambda>s. if Op s = OpAlternate then ''(?:'' @ rendered str s @ '')''
                            else rendered str s) sub))"
    using kids by (rule writeConcat_rendered)
  have a: "writeAlternate str 0 sub = Inr (joinWith ''|'' (map (rendered str) sub))"
    using kids by (rule writeAlternate_rendered)
  have "\<exists>t. writeECMAScriptCompatibleRegexp str (Regexp op fl sub rn mn mx cp nm) = Inr t"
  proof (cases sub)
    case Nil
    with Regexp.prems show ?thesis by auto
  next
    case (Cons s rest)
    with kids have "writeECMAScriptCompatibleRegexp str s = Inr (rendered str s)" by simp
    with Cons c a show ?thesis by simp
  qed
  then obtain t where t: "writeECMAScriptCompatibleRegexp str (Regexp op fl sub rn mn mx cp nm) = Inr t"
    by blast
  from rendered_ok [OF t] t show ?case by (simp only:)
qed

subsection \<open>The steps of the string translator\<close>

lemma keepsOrSets_trans:
  "keepsOrSets ie a b \<Longrightarrow> keepsOrSets ie b c \<Longrightarrow> keepsOrSets ie a c"
  by (auto simp: keepsOrSets_def)

lemma keepsOrSets_steps:
  "keepsOrSets ie st (ruleConst r ie st)"
  "keepsOrSets ie st (ruleContains r ie st)"
  "keepsOrSets ie st (ruleIn r ie st)"
  "keepsOrSets ie st (ruleLen r ie st)"
  "keepsOrSets ie st (ruleLenBytes r ie st)"
  "keepsOrSets ie st (ruleMaxLen r st)"
  "keepsOrSets ie st (ruleMinLen r ie st)"
  "keepsOrSets ie st (ruleNotContains r st)"
  "keepsOrSets ie st (ruleNotIn r st)"
  "keepsOrSets ie st (rulePrefix r ie st)"
  "keepsOrSets ie st (ruleSuffix r ie st)"
  by (auto simp: keepsOrSets_def ruleConst_def ruleContains_def ruleIn_def ruleLen_def
        ruleLenBytes_def ruleMaxLen_def ruleMinLen_def ruleNotContains_def ruleNotIn_def
        rulePrefix_def ruleSuffix_def split: option.splits)

lemma keepsOrSets_wellKnown: "keepsOrSets ie st (ruleWellKnown r ie st)"
  by (simp add: keepsOrSets_def ruleWellKnown_def setFormat_def
        split: option.splits StringWellKnown.splits)

lemma keepsOrSets_pattern:
  "rulePattern lib r ie st = Inr st' \<Longrightarrow> keepsOrSets ie st st'"
  by (auto simp: keepsOrSets_def rulePattern_def split: option.splits sum.splits if_splits)

lemma keepsOrSets_refl: "keepsOrSets ie st st"
  by (simp add: keepsOrSets_def)

lemmas keepsOrSets_then =
  keepsOrSets_steps [THEN [2] keepsOrSets_trans] keepsOrSets_wellKnown [THEN [2] keepsOrSets_trans]

lemma keepsOrSets_before: "keepsOrSets ie initialState (rulesBeforePattern r ie)"
  unfolding rulesBeforePattern_def
  by (intro keepsOrSets_then keepsOrSets_refl)

lemma keepsOrSets_after: "keepsOrSets ie st (rulesAfterPattern r ie st)"
  unfolding rulesAfterPattern_def
  by (intro keepsOrSets_then keepsOrSets_refl)

lemma keepsOrSets_collect:
  assumes "collectStringRules lib rules ie = Inr st"
  shows "keepsOrSets ie initialState st"
proof (cases rules)
  case None
  with assms show ?thesis by (simp add: collectStringRules_def keepsOrSets_def)
next
  case (Some r)
  with assms obtain st1 where p: "rulePattern lib r ie (rulesBeforePattern r ie) = Inr st1"
    and st: "st = rulesAfterPattern r ie st1"
    by (auto simp: collectStringRules_def split: sum.splits)
  from keepsOrSets_before keepsOrSets_pattern [OF p] have "keepsOrSets ie initialState st1"
    by (rule keepsOrSets_trans)
  then show ?thesis unfolding st using keepsOrSets_after by (rule keepsOrSets_trans)
qed

lemma keepsOrSets_required:
  "keepsOrSets ie a b \<Longrightarrow> required a = (\<not> ie) \<Longrightarrow> required b = (\<not> ie)"
  by (auto simp: keepsOrSets_def)

lemma keepsOrSets_patterns:
  "keepsOrSets ie a b \<Longrightarrow> x \<in> set (patterns a) \<Longrightarrow> x \<in> set (patterns b)"
  by (auto simp: keepsOrSets_def)

lemma ruleContains_present:
  "StringRules_Contains r = Some c \<Longrightarrow>
   QuoteMeta c \<in> set (patterns (ruleContains r ie st)) \<and> required (ruleContains r ie st) = (\<not> ie)"
  by (simp add: ruleContains_def)

lemma rulePrefix_present:
  "StringRules_Prefix r = Some p \<Longrightarrow>
   ''^'' @ QuoteMeta p \<in> set (patterns (rulePrefix r ie st)) \<and> required (rulePrefix r ie st) = (\<not> ie)"
  by (simp add: rulePrefix_def)

lemma ruleSuffix_present:
  "StringRules_Suffix r = Some s \<Longrightarrow>
   QuoteMeta s @ ''$'' \<in> set (patterns (ruleSuffix r ie st)) \<and> required (ruleSuffix r ie st) = (\<not> ie)"
  by (simp add: ruleSuffix_def)

lemma keepsOrSets_after_contains:
  "keepsOrSets ie (ruleContains r ie (ruleConst r ie initialState)) (rulesBeforePattern r ie)"
  unfolding rulesBeforePattern_def
  by (intro keepsOrSets_refl keepsOrSets_then)

lemma keepsOrSets_after_prefix:
  "keepsOrSets ie (rulePrefix r ie st) (rulesAfterPattern r ie st)"
  unfolding rulesAfterPattern_def
  by (intro keepsOrSets_refl keepsOrSets_then)

lemma keepsOrSets_after_suffix:
  "keepsOrSets ie (ruleSuffix r ie (rulePrefix r ie st)) (rulesAfterPattern r ie st)"
  unfolding rulesAfterPattern_def
  by (intro keepsOrSets_refl keepsOrSets_then)

lemma collect_Some:
  assumes "collectStringRules lib (Some r) ie = Inr st"
  obtains st1 where "rulePattern lib r ie (rulesBeforePattern r ie) = Inr st1"
    and "st = rulesAfterPattern r ie st1"
  using assms by (auto simp: collectStringRules_def split: sum.splits)

lemma contains_collected:
  assumes c: "collectStringRules lib (Some r) ie = Inr st" and p: "StringRules_Contains r = Some x"
  shows "QuoteMeta x \<in> set (patterns st) \<and> required st = (\<not> ie)"
proof -
  from c obtain st1 where p1: "rulePattern lib r ie (rulesBeforePattern r ie) = Inr st1"
    and st: "st = rulesAfterPattern r ie st1" by (rule collect_Some)
  let ?a = "ruleContains r ie (ruleConst r ie initialState)"
  have "keepsOrSets ie ?a st1"
    using keepsOrSets_after_contains keepsOrSets_pattern [OF p1] by (rule keepsOrSets_trans)
  then have k: "keepsOrSets ie ?a st"
    unfolding st using keepsOrSets_after by (rule keepsOrSets_trans)
  from ruleContains_present [OF p] keepsOrSets_required [OF k] keepsOrSets_patterns [OF k]
  show ?thesis by blast
qed

lemma prefix_collected:
  assumes c: "collectStringRules lib (Some r) ie = Inr st" and p: "StringRules_Prefix r = Some x"
  shows "''^'' @ QuoteMeta x \<in> set (patterns st) \<and> required st = (\<not> ie)"
proof -
  from c obtain st1 where st: "st = rulesAfterPattern r ie st1" by (rule collect_Some)
  have k: "keepsOrSets ie (rulePrefix r ie st1) st"
    unfolding st by (rule keepsOrSets_after_prefix)
  from rulePrefix_present [OF p] keepsOrSets_required [OF k] keepsOrSets_patterns [OF k]
  show ?thesis by blast
qed

lemma suffix_collected:
  assumes c: "collectStringRules lib (Some r) ie = Inr st" and p: "StringRules_Suffix r = Some x"
  shows "QuoteMeta x @ ''$'' \<in> set (patterns st) \<and> required st = (\<not> ie)"
proof -
  from c obtain st1 where st: "st = rulesAfterPattern r ie st1" by (rule collect_Some)
  have k: "keepsOrSets ie (ruleSuffix r ie (rulePrefix r ie st1)) st"
    unfolding st by (rule keepsOrSets_after_suffix)
  from ruleSuffix_present [OF p] keepsOrSets_required [OF k] keepsOrSets_patterns [OF k]
  show ?thesis by blast
qed

lemma rulePattern_fails_iff:
  assumes wf: "\<And>p e. Parse lib p = Some e \<Longrightarrow> wellFormed e"
  shows "(\<exists>err. rulePattern lib r ie st = Inl err) \<longleftrightarrow>
         (\<exists>p. StringRules_Pattern r = Some p \<and> (Parse lib p = None \<or> MatchString lib p '''' = None))"
proof (cases "StringRules_Pattern r")
  case None
  then show ?thesis by (simp add: rulePattern_def)
next
  case (Some p)
  show ?thesis
  proof (cases "Parse lib p")
    case None
    with Some show ?thesis
      by (simp add: rulePattern_def makeRegexpCompatibleWithECMAScript_def)
  next
    case (Some e)
    from wf [OF Some] have "writeECMAScriptCompatibleRegexp (RegexpString lib) e
        = Inr (rendered (RegexpString lib) e)"
      by (rule write_wellFormed)
    with Some \<open>StringRules_Pattern r = Some p\<close> show ?thesis
      by (simp add: rulePattern_def makeRegexpCompatibleWithECMAScript_def matchesEmptyString_def
            split: option.splits)
  qed
qed

lemma schemaForString_fails_iff:
  assumes wf: "\<And>p e. Parse lib p = Some e \<Longrightarrow> wellFormed e"
  shows "(\<exists>err. schemaForString lib rules ie = Inl err) \<longleftrightarrow>
         (\<exists>r p. rules = Some r \<and> StringRules_Pattern r = Some p
                \<and> (Parse lib p = None \<or> MatchString lib p '''' = None))"
proof (cases rules)
  case None
  then show ?thesis by (simp add: schemaForString_def collectStringRules_def)
next
  case (Some r)
  have "(\<exists>err. schemaForString lib (Some r) ie = Inl err) \<longleftrightarrow>
        (\<exists>err. rulePattern lib r ie (rulesBeforePattern r ie) = Inl err)"
    by (simp add: schemaForString_def collectStringRules_def split: sum.splits)
  with Some rulePattern_fails_iff [OF wf] show ?thesis
    by simp
qed

subsection \<open>The claims on the rewriter\<close>

text \<open>
  C6: for a node tagged star, plus, quest or bounded repeat, the rewriter wraps the
  rendered child in a non-capturing group exactly when the child's operator ranks above the
  capture operator or the child is a literal of more than one rune; a capture group and a
  literal of at most one rune are written unwrapped; the quantifier follows.
\<close>

theorem quantifier_operand_grouping:
  assumes "Op e = OpStar \<or> Op e = OpPlus \<or> Op e = OpQuest \<or> Op e = OpRepeat"
    and "Sub e = s # rest"
    and "writeECMAScriptCompatibleRegexp str s = Inr t"
  shows "\<exists>q. q = (if Op e = OpStar then ''*''
                 else if Op e = OpPlus then ''+''
                 else if Op e = OpQuest then ''?''
                 else ''{'' @ Itoa (Min e)
                      @ (if Max e \<noteq> Min e then '','' @ (if Max e \<ge> 0 then Itoa (Max e) else '''')
                         else '''')
                      @ ''}'')
           \<and> writeECMAScriptCompatibleRegexp str e =
               Inr ((if opCode (Op s) > opCode OpCapture
                        \<or> (Op s = OpLiteral \<and> length (Rune s) > 1)
                     then ''(?:'' @ t @ '')'' else t) @ q)
           \<and> (Op s = OpCapture \<or> (Op s = OpLiteral \<and> length (Rune s) \<le> 1)
                \<longrightarrow> writeECMAScriptCompatibleRegexp str e = Inr (t @ q))"
  using assms by (cases e) auto

theorem quantifier_operand_grouping_witness:
  "Op (node OpPlus [literal [97, 98]]) = OpPlus
   \<and> Sub (node OpPlus [literal [97, 98]]) = literal [97, 98] # []
   \<and> writeECMAScriptCompatibleRegexp exampleString (literal [97, 98]) = Inr ''ab''
   \<and> writeECMAScriptCompatibleRegexp exampleString (node OpPlus [literal [97, 98]]) = Inr ''(?:ab)+''"
  using quantifier_operand_grouping
    [of "node OpPlus [literal [97, 98]]" "literal [97, 98]" "[]" exampleString "''ab''"]
  by (simp add: node_def literal_def exampleString_def)

text \<open>
  C8: a bounded repeat is written with the quantifier \<open>{min}\<close> when the maximum equals the
  minimum, otherwise \<open>{min,}\<close> when the maximum is negative, otherwise \<open>{min,max}\<close>; the
  quantifier follows the operand, which is the rendered child or the rendered child in a
  non-capturing group.
\<close>

theorem repeat_quantifier_rendering:
  assumes "Op e = OpRepeat"
    and "Sub e = s # rest"
    and "writeECMAScriptCompatibleRegexp str s = Inr t"
  shows "\<exists>operand. (operand = t \<or> operand = ''(?:'' @ t @ '')'')
           \<and> writeECMAScriptCompatibleRegexp str e =
               Inr (operand @
                    (if Max e = Min e then ''{'' @ Itoa (Min e) @ ''}''
                     else if Max e < 0 then ''{'' @ Itoa (Min e) @ '',}''
                     else ''{'' @ Itoa (Min e) @ '','' @ Itoa (Max e) @ ''}''))"
  using assms by (cases e) auto

theorem repeat_quantifier_rendering_witness:
  "Op (repeat 2 (- 1) (literal [97])) = OpRepeat
   \<and> Sub (repeat 2 (- 1) (literal [97])) = literal [97] # []
   \<and> writeECMAScriptCompatibleRegexp exampleString (literal [97]) = Inr ''a''
   \<and> writeECMAScriptCompatibleRegexp exampleString (repeat 2 (- 1) (literal [97])) = Inr ''a{2,}''
   \<and> writeECMAScriptCompatibleRegexp exampleString (repeat 3 3 (literal [97])) = Inr ''a{3}''
   \<and> writeECMAScriptCompatibleRegexp exampleString (repeat 2 15 (literal [97])) = Inr ''a{2,15}''"
  using repeat_quantifier_rendering
      [of "repeat 2 (- 1) (literal [97])" "literal [97]" "[]" exampleString "''a''"]
    repeat_quantifier_rendering
      [of "repeat 3 3 (literal [97])" "literal [97]" "[]" exampleString "''a''"]
    repeat_quantifier_rendering
      [of "repeat 2 15 (literal [97])" "literal [97]" "[]" exampleString "''a''"]
  by (simp add: repeat_def literal_def exampleString_def Itoa_def digitsOf.simps)

text \<open>
  C7, as the claim states it, fails: an alternation that is the child of a star node is
  written inside a non-capturing group, although its parent is not a concatenation.
\<close>

theorem alternation_under_star_counterexample:
  "writeECMAScriptCompatibleRegexp exampleString
     (node OpAlternate [literal [97, 98], literal [99, 100]]) = Inr ''ab|cd''
   \<and> writeECMAScriptCompatibleRegexp exampleString
       (node OpStar [node OpAlternate [literal [97, 98], literal [99, 100]]]) = Inr ''(?:ab|cd)*''
   \<and> writeECMAScriptCompatibleRegexp exampleString
       (node OpStar [node OpAlternate [literal [97, 98], literal [99, 100]]]) \<noteq> Inr ''ab|cd*''"
  by (simp add: node_def literal_def exampleString_def)

text \<open>
  C7, amended: when every child of a node is rendered, a concatenation writes each child
  that is an alternation inside a non-capturing group and every other child as it is
  rendered; an alternation is written as its children joined by a bar, with no group of its
  own; a capture group writes its child between plain parentheses; a star, plus, quest or
  bounded repeat writes a child that is an alternation inside a non-capturing group.
\<close>

theorem alternation_grouping:
  assumes "\<forall>s \<in> set (Sub e). writeECMAScriptCompatibleRegexp str s = Inr (rendered str s)"
  shows "(Op e = OpConcat \<longrightarrow>
            writeECMAScriptCompatibleRegexp str e =
              Inr (concat (map (\<lambda>s. if Op s = OpAlternate then ''(?:'' @ rendered str s @ '')''
                                     else rendered str s) (Sub e))))
       \<and> (Op e = OpAlternate \<longrightarrow>
            writeECMAScriptCompatibleRegexp str e = Inr (joinWith ''|'' (map (rendered str) (Sub e))))
       \<and> (Op e = OpCapture \<longrightarrow> (\<forall>a rest. Sub e = a # rest \<longrightarrow>
            writeECMAScriptCompatibleRegexp str e = Inr (''('' @ rendered str a @ '')'')))
       \<and> (Op e = OpStar \<or> Op e = OpPlus \<or> Op e = OpQuest \<or> Op e = OpRepeat \<longrightarrow>
            (\<forall>a rest. Sub e = a # rest \<and> Op a = OpAlternate \<longrightarrow>
               (\<exists>q. writeECMAScriptCompatibleRegexp str e = Inr (''(?:'' @ rendered str a @ '')'' @ q))))"
proof (cases e)
  case (Regexp op fl sub rn mn mx cp nm)
  with assms have kids: "\<forall>s \<in> set sub. writeECMAScriptCompatibleRegexp str s = Inr (rendered str s)"
    by simp
  note c = writeConcat_rendered [OF kids] and a = writeAlternate_rendered [OF kids]
  have 1: "op = OpConcat \<longrightarrow>
            writeECMAScriptCompatibleRegexp str e =
              Inr (concat (map (\<lambda>s. if Op s = OpAlternate then ''(?:'' @ rendered str s @ '')''
                                     else rendered str s) sub))"
    using c Regexp by simp
  have 2: "op = OpAlternate \<longrightarrow>
            writeECMAScriptCompatibleRegexp str e = Inr (joinWith ''|'' (map (rendered str) sub))"
    using a Regexp by simp
  have 3: "op = OpCapture \<longrightarrow> (\<forall>a rest. sub = a # rest \<longrightarrow>
            writeECMAScriptCompatibleRegexp str e = Inr (''('' @ rendered str a @ '')''))"
    using kids Regexp by auto
  have 4: "op = OpStar \<or> op = OpPlus \<or> op = OpQuest \<or> op = OpRepeat \<longrightarrow>
            (\<forall>a rest. sub = a # rest \<and> Op a = OpAlternate \<longrightarrow>
               (\<exists>q. writeECMAScriptCompatibleRegexp str e = Inr (''(?:'' @ rendered str a @ '')'' @ q)))"
    using kids Regexp by auto
  from 1 2 3 4 Regexp show ?thesis by simp
qed

theorem alternation_grouping_witness:
  "writeECMAScriptCompatibleRegexp exampleString (literal [97]) = Inr ''a''
   \<and> writeECMAScriptCompatibleRegexp exampleString
       (node OpAlternate [literal [97, 98], literal [99, 100]]) = Inr ''ab|cd''
   \<and> writeECMAScriptCompatibleRegexp exampleString
       (node OpConcat
         [literal [97], node OpAlternate [literal [97, 98], literal [99, 100]], literal [97]])
       = Inr ''a(?:ab|cd)a''
   \<and> writeECMAScriptCompatibleRegexp exampleString
       (node OpCapture [node OpAlternate [literal [97, 98], literal [99, 100]]])
       = Inr ''(ab|cd)''"
  using alternation_grouping
      [of "node OpConcat
             [literal [97], node OpAlternate [literal [97, 98], literal [99, 100]], literal [97]]"
          exampleString]
    alternation_grouping
      [of "node OpCapture [node OpAlternate [literal [97, 98], literal [99, 100]]]" exampleString]
  by (simp add: node_def literal_def exampleString_def rendered_def)

subsection \<open>The claims on the translators\<close>

lemmas stringRuleDefs =
  schemaForString_def collectStringRules_def rulesBeforePattern_def rulesAfterPattern_def
  rulePattern_def ruleConst_def ruleContains_def ruleIn_def ruleLen_def ruleLenBytes_def
  ruleMaxLen_def ruleMinLen_def ruleNotContains_def ruleNotIn_def rulePrefix_def ruleSuffix_def
  ruleWellKnown_def initialState_def mergePatterns_def patternSchema_def
  makeRegexpCompatibleWithECMAScript_def matchesEmptyString_def

lemmas exampleDefs =
  exampleLibrary_def exampleParse_def exampleString_def exampleMatchString_def
  exampleIsNumeric_def emptyStringRules_def emptyBytesRules_def node_def literal_def

lemmas quoteDefs = QuoteMeta_def special_def bslash_def

text \<open>
  C1, as the claim states it, fails for the boolean translator: with the ignore-empty flag
  set and a \<open>Const\<close> rule present, the dispatcher returns the required flag true.
\<close>

theorem bool_ignores_ignoreEmpty_counterexample:
  "schemaForScalar exampleLibrary BoolT
     (Some \<lparr>IgnoreEmpty = True,
            FieldConstraints_Bool = Some \<lparr>BoolRules_Const = Some True\<rparr>,
            FieldConstraints_Bytes = None,
            FieldConstraints_String = None\<rparr>)
   = Inr (BooleanNode (Some True), True)"
  by (simp add: schemaForScalar_def schemaForBool_def GetBool_def exampleLibrary_def
        exampleIsNumeric_def)

text \<open>
  C1, amended: with the ignore-empty flag set, the bytes translator returns the required
  flag false for every rule set, and so does the string translator whenever it returns;
  the boolean translator takes no ignore-empty flag and returns the required flag true
  exactly when a \<open>Const\<close> rule is present.
\<close>

theorem ignoreEmpty_suppresses_required:
  "snd (schemaForBytes brules True) = False
   \<and> (\<forall>s req. schemaForString lib srules True = Inr (s, req) \<longrightarrow> req = False)
   \<and> (snd (schemaForBool rules) \<longleftrightarrow> (\<exists>r c. rules = Some r \<and> BoolRules_Const r = Some c))"
proof -
  have b: "snd (schemaForBytes brules True) = False"
    by (simp add: schemaForBytes_def split: option.splits)
  have s: "req = False" if "schemaForString lib srules True = Inr (s, req)" for s req
  proof -
    from that obtain st where c: "collectStringRules lib srules True = Inr st"
      and r: "req = required st"
      by (auto simp: schemaForString_def split: sum.splits)
    from keepsOrSets_collect [OF c] show ?thesis
      by (simp add: keepsOrSets_def initialState_def r)
  qed
  have t: "snd (schemaForBool rules) \<longleftrightarrow> (\<exists>r c. rules = Some r \<and> BoolRules_Const r = Some c)"
    by (simp add: schemaForBool_def split: option.splits)
  from b s t show ?thesis by blast
qed

theorem ignoreEmpty_suppresses_required_witness:
  "schemaForString exampleLibrary
     (Some (emptyStringRules\<lparr>StringRules_Const := Some ''x'', StringRules_MinLen := Some 1\<rparr>)) True
   = Inr (AllOf [StringNode (NewStringSchema\<lparr>Const := Some ''x'', MinLength := Some 1\<rparr>) []], False)
   \<and> snd (schemaForBytes (Some (emptyBytesRules\<lparr>BytesRules_MinLen := Some 5\<rparr>)) True) = False
   \<and> snd (schemaForBool (Some \<lparr>BoolRules_Const = Some False\<rparr>)) = True"
proof -
  have "\<exists>req. schemaForString exampleLibrary
     (Some (emptyStringRules\<lparr>StringRules_Const := Some ''x'', StringRules_MinLen := Some 1\<rparr>)) True
     = Inr (AllOf [StringNode (NewStringSchema\<lparr>Const := Some ''x'', MinLength := Some 1\<rparr>) []], req)"
    by (auto simp: stringRuleDefs exampleDefs)
  then obtain req where e: "schemaForString exampleLibrary
     (Some (emptyStringRules\<lparr>StringRules_Const := Some ''x'', StringRules_MinLen := Some 1\<rparr>)) True
     = Inr (AllOf [StringNode (NewStringSchema\<lparr>Const := Some ''x'', MinLength := Some 1\<rparr>) []], req)"
    by blast
  from ignoreEmpty_suppresses_required
    [of "Some (emptyBytesRules\<lparr>BytesRules_MinLen := Some 5\<rparr>)" exampleLibrary
        "Some (emptyStringRules\<lparr>StringRules_Const := Some ''x'', StringRules_MinLen := Some 1\<rparr>)"
        "Some \<lparr>BoolRules_Const = Some False\<rparr>"]
    e
  show ?thesis by auto
qed

text \<open>
  C2: for every bytes rule set and every value of the ignore-empty flag, the bytes
  translator returns the string-typed schema whose \<open>OneOf\<close> children are exactly two
  string-typed schemas, the first with the pattern \<^verbatim>\<open>^[\r\nA-Za-z0-9+/]*$\<close> and the
  second with the pattern \<^verbatim>\<open>^[\r\nA-Za-z0-9_-]*$\<close>.
\<close>

theorem schemaForBytes_shape:
  "fst (schemaForBytes rules ignoreEmpty) =
     StringNode NewStringSchema
       [StringNode (NewStringSchema
           \<lparr>Title := ''Standard base64 encoding'',
            Pattern := [CHR ''^'', CHR ''['', CHR 0x5C, CHR ''r'', CHR 0x5C, CHR ''n'']
                       @ ''A-Za-z0-9+/]*$''\<rparr>) [],
        StringNode (NewStringSchema
           \<lparr>Title := ''URL-safe base64 encoding'',
            Pattern := [CHR ''^'', CHR ''['', CHR 0x5C, CHR ''r'', CHR 0x5C, CHR ''n'']
                       @ ''A-Za-z0-9_-]*$''\<rparr>) []]"
  by (simp add: schemaForBytes_def standardPattern_def urlSafePattern_def bslash_def)

theorem schemaForBytes_shape_witness:
  "fst (schemaForBytes (Some (emptyBytesRules\<lparr>BytesRules_MinLen := Some 5\<rparr>)) False)
   = fst (schemaForBytes None True)"
  using schemaForBytes_shape [of "Some (emptyBytesRules\<lparr>BytesRules_MinLen := Some 5\<rparr>)" False]
    schemaForBytes_shape [of None True]
  by simp

text \<open>
  C3: for a string rule set whose only rule is \<open>Pattern = p\<close>, when the match of \<open>p\<close>
  against the empty string reports a match, every result of the string translator has the
  required flag false, for every value of the ignore-empty flag; and the translator does
  return, with the rewritten pattern on the base schema, when \<open>p\<close> parses and is
  rewritten.
\<close>

theorem pattern_matching_empty_not_required:
  assumes "MatchString lib p '''' = Some True"
  shows "(\<forall>s req. schemaForString lib (Some (emptyStringRules\<lparr>StringRules_Pattern := Some p\<rparr>))
                    ignoreEmpty = Inr (s, req) \<longrightarrow> \<not> req)
       \<and> (\<forall>e t. Parse lib p = Some e
                  \<and> writeECMAScriptCompatibleRegexp (RegexpString lib) e = Inr t \<longrightarrow>
             schemaForString lib (Some (emptyStringRules\<lparr>StringRules_Pattern := Some p\<rparr>))
               ignoreEmpty
             = Inr (AllOf [StringNode (NewStringSchema\<lparr>Pattern := t\<rparr>) []], False))"
  using assms
  by (auto simp: stringRuleDefs emptyStringRules_def split: option.splits sum.splits)

theorem pattern_matching_empty_not_required_witness:
  "MatchString exampleLibrary ''a*'' '''' = Some True
   \<and> schemaForString exampleLibrary
       (Some (emptyStringRules\<lparr>StringRules_Pattern := Some ''a*''\<rparr>)) False
     = Inr (AllOf [StringNode (NewStringSchema\<lparr>Pattern := ''a*''\<rparr>) []], False)"
proof -
  have m: "MatchString exampleLibrary ''a*'' '''' = Some True"
    by (simp add: exampleLibrary_def exampleMatchString_def)
  have p: "Parse exampleLibrary ''a*'' = Some (node OpStar [literal [97]])"
    by (simp add: exampleLibrary_def exampleParse_def)
  have w: "writeECMAScriptCompatibleRegexp (RegexpString exampleLibrary) (node OpStar [literal [97]])
           = Inr ''a*''"
    by (simp add: exampleLibrary_def exampleString_def node_def literal_def)
  from pattern_matching_empty_not_required [OF m, of False] p w m show ?thesis
    by blast
qed

text \<open>
  C4: when the string translator has collected its fragments, the base schema carries no
  pattern yet; if exactly one pattern fragment was collected, it becomes the pattern of the
  base schema, and the result is the conjunction of the base schema and the appended
  fragments; otherwise every pattern fragment becomes a string-typed schema with that
  pattern alone, and the result is the conjunction of the base schema, the appended
  fragments and the pattern schemas.
\<close>

theorem pattern_fragment_merge:
  assumes "collectStringRules lib rules ignoreEmpty = Inr st"
  shows "Pattern (schema st) = ''''
       \<and> schemaForString lib rules ignoreEmpty =
           Inr (AllOf
                  (if length (patterns st) = 1
                   then StringNode ((schema st)\<lparr>Pattern := hd (patterns st)\<rparr>) [] # appended st
                   else StringNode (schema st) [] # appended st
                        @ map (\<lambda>p. StringNode (NewStringSchema\<lparr>Pattern := p\<rparr>) []) (patterns st)),
                required st)"
proof -
  from keepsOrSets_collect [OF assms] have "Pattern (schema st) = ''''"
    by (simp add: keepsOrSets_def initialState_def NewStringSchema_def)
  moreover have "length (patterns st) = 1 \<Longrightarrow> patterns st ! 0 = hd (patterns st)"
    by (cases "patterns st") simp_all
  ultimately show ?thesis using assms
    by (simp add: schemaForString_def mergePatterns_def patternSchema_def)
qed

theorem pattern_fragment_merge_witness:
  "schemaForString exampleLibrary
     (Some (emptyStringRules\<lparr>StringRules_Prefix := Some ''abc'', StringRules_Suffix := Some ''xyz''\<rparr>))
     False
   = Inr (AllOf [StringNode NewStringSchema [],
                 StringNode (NewStringSchema\<lparr>Pattern := ''^abc''\<rparr>) [],
                 StringNode (NewStringSchema\<lparr>Pattern := ''xyz$''\<rparr>) []], True)
   \<and> schemaForString exampleLibrary
     (Some (emptyStringRules\<lparr>StringRules_NotIn := [''q''], StringRules_Prefix := Some ''abc''\<rparr>))
     False
   = Inr (AllOf [StringNode (NewStringSchema\<lparr>Pattern := ''^abc''\<rparr>) [],
                 Not (StringNode (NewStringSchema\<lparr>Enum := [''q'']\<rparr>) [])], True)"
proof -
  have 1: "collectStringRules exampleLibrary
     (Some (emptyStringRules\<lparr>StringRules_Prefix := Some ''abc'', StringRules_Suffix := Some ''xyz''\<rparr>))
     False
    = Inr \<lparr>schema = NewStringSchema, appended = [], patterns = [''^abc'', ''xyz$''],
           required = True\<rparr>"
    by (simp add: stringRuleDefs exampleDefs quoteDefs)
  have 2: "collectStringRules exampleLibrary
     (Some (emptyStringRules\<lparr>StringRules_NotIn := [''q''], StringRules_Prefix := Some ''abc''\<rparr>))
     False
    = Inr \<lparr>schema = NewStringSchema,
           appended = [Not (StringNode (NewStringSchema\<lparr>Enum := [''q'']\<rparr>) [])],
           patterns = [''^abc''], required = True\<rparr>"
    by (simp add: stringRuleDefs exampleDefs quoteDefs)
  from pattern_fragment_merge [OF 1] pattern_fragment_merge [OF 2] show ?thesis
    by simp
qed

text \<open>
  C5: the required flag of the bytes translator is true exactly when the ignore-empty flag
  is false and the rule set is present with a non-empty \<open>Const\<close>, a non-empty
  \<open>Contains\<close>, a non-empty \<open>In\<close>, a \<open>MinLen\<close>, a \<open>Pattern\<close>, a non-empty
  \<open>Prefix\<close>, a non-empty \<open>Suffix\<close> or a well-known format; a rule set with only
  \<open>MaxLen\<close> or \<open>Len\<close> gives the required flag false.
\<close>

theorem schemaForBytes_required_iff:
  "(snd (schemaForBytes rules ignoreEmpty) \<longleftrightarrow>
      \<not> ignoreEmpty \<and>
      (\<exists>r. rules = Some r \<and>
           (BytesRules_Const r \<noteq> [] \<or> BytesRules_Contains r \<noteq> [] \<or> BytesRules_In r \<noteq> [] \<or>
            BytesRules_MinLen r \<noteq> None \<or> BytesRules_Pattern r \<noteq> None \<or>
            BytesRules_Prefix r \<noteq> [] \<or> BytesRules_Suffix r \<noteq> [] \<or>
            BytesRules_WellKnown r \<noteq> None)))
   \<and> snd (schemaForBytes
            (Some (emptyBytesRules\<lparr>BytesRules_MaxLen := maxLen, BytesRules_Len := len\<rparr>))
            ignoreEmpty) = False"
  by (cases rules) (simp_all add: schemaForBytes_def emptyBytesRules_def)

theorem schemaForBytes_required_iff_witness:
  "snd (schemaForBytes (Some (emptyBytesRules\<lparr>BytesRules_MinLen := Some 5\<rparr>)) False) = True
   \<and> snd (schemaForBytes (Some (emptyBytesRules\<lparr>BytesRules_MaxLen := Some 5\<rparr>)) False) = False
   \<and> snd (schemaForBytes (Some (emptyBytesRules\<lparr>BytesRules_Prefix := [1, 2]\<rparr>)) True) = False"
  using schemaForBytes_required_iff
      [where rules = "Some (emptyBytesRules\<lparr>BytesRules_MinLen := Some 5\<rparr>)"
         and ignoreEmpty = False and maxLen = "Some 5" and len = None]
    schemaForBytes_required_iff
      [where rules = "Some (emptyBytesRules\<lparr>BytesRules_Prefix := [1, 2]\<rparr>)"
         and ignoreEmpty = True and maxLen = None and len = None]
  by (simp add: emptyBytesRules_def)

text \<open>
  C9: provided the parser returns only well-formed trees and the numeric translator returns
  on numeric kinds, the dispatcher aborts exactly when the kind is not numeric and is none
  of \<open>BoolT\<close>, \<open>BytesT\<close>, \<open>StringT\<close>, or the kind is \<open>StringT\<close> and the string
  rules carry a \<open>Pattern\<close> whose parse fails or whose match against the empty string
  fails; on every other input it returns a schema and a required flag.
\<close>

theorem schemaForScalar_fails_iff:
  assumes wf: "\<And>p e. Parse lib p = Some e \<Longrightarrow> wellFormed e"
    and num: "\<And>k c. IsNumeric lib k \<Longrightarrow> \<exists>r. schemaForNumericScalar lib k c = Inr r"
  shows "((\<exists>err. schemaForScalar lib kind constraints = Inl err) \<longleftrightarrow>
            \<not> IsNumeric lib kind \<and>
            (kind \<notin> {BoolT, BytesT, StringT} \<or>
             (kind = StringT \<and>
              (\<exists>r p. GetString constraints = Some r \<and> StringRules_Pattern r = Some p
                     \<and> (Parse lib p = None \<or> MatchString lib p '''' = None)))))
       \<and> ((\<exists>s req. schemaForScalar lib kind constraints = Inr (s, req)) \<longleftrightarrow>
            \<not> (\<exists>err. schemaForScalar lib kind constraints = Inl err))"
proof -
  have total: "(\<exists>s req. x = Inr (s, req)) \<longleftrightarrow> \<not> (\<exists>err. x = Inl err)"
    for x :: "fatal + Schema \<times> bool"
    by (cases x) auto
  have "(\<exists>err. schemaForScalar lib kind constraints = Inl err) \<longleftrightarrow>
            \<not> IsNumeric lib kind \<and>
            (kind \<notin> {BoolT, BytesT, StringT} \<or>
             (kind = StringT \<and>
              (\<exists>r p. GetString constraints = Some r \<and> StringRules_Pattern r = Some p
                     \<and> (Parse lib p = None \<or> MatchString lib p '''' = None))))"
  proof (cases "IsNumeric lib kind")
    case True
    with num [OF True, of constraints] show ?thesis by (auto simp: schemaForScalar_def)
  next
    case False
    then show ?thesis
      using schemaForString_fails_iff [OF wf]
      by (cases kind) (simp_all add: schemaForScalar_def)
  qed
  with total show ?thesis by blast
qed

lemma exampleParse_wellFormed: "Parse exampleLibrary p = Some e \<Longrightarrow> wellFormed e"
  by (auto simp: exampleLibrary_def exampleParse_def node_def literal_def split: if_splits)

lemma exampleNumeric_returns: "\<exists>r. schemaForNumericScalar exampleLibrary k c = Inr r"
  by (auto simp: exampleLibrary_def)

theorem schemaForScalar_fails_iff_witness:
  "schemaForScalar exampleLibrary MessageT None = Inl (UnexpectedScalarType MessageT)
   \<and> schemaForScalar exampleLibrary StringT
        (Some \<lparr>IgnoreEmpty = False, FieldConstraints_Bool = None, FieldConstraints_Bytes = None,
               FieldConstraints_String = Some (emptyStringRules\<lparr>StringRules_Pattern := Some ''(''\<rparr>)\<rparr>)
      = Inl (FailedToParse ''('')
   \<and> schemaForScalar exampleLibrary StringT
        (Some \<lparr>IgnoreEmpty = False, FieldConstraints_Bool = None, FieldConstraints_Bytes = None,
               FieldConstraints_String = Some (emptyStringRules\<lparr>StringRules_Pattern := Some ''a+''\<rparr>)\<rparr>)
      = Inr (AllOf [StringNode (NewStringSchema\<lparr>Pattern := ''a+''\<rparr>) []], True)
   \<and> (\<exists>s req. schemaForScalar exampleLibrary BytesT None = Inr (s, req))"
proof -
  have 1: "schemaForScalar exampleLibrary MessageT None = Inl (UnexpectedScalarType MessageT)"
    by (simp add: schemaForScalar_def exampleLibrary_def exampleIsNumeric_def)
  have 2: "schemaForScalar exampleLibrary StringT
        (Some \<lparr>IgnoreEmpty = False, FieldConstraints_Bool = None, FieldConstraints_Bytes = None,
               FieldConstraints_String = Some (emptyStringRules\<lparr>StringRules_Pattern := Some ''(''\<rparr>)\<rparr>)
      = Inl (FailedToParse ''('')"
    by (simp add: schemaForScalar_def GetString_def stringRuleDefs exampleDefs)
  have 3: "schemaForScalar exampleLibrary StringT
        (Some \<lparr>IgnoreEmpty = False, FieldConstraints_Bool = None, FieldConstraints_Bytes = None,
               FieldConstraints_String = Some (emptyStringRules\<lparr>StringRules_Pattern := Some ''a+''\<rparr>)\<rparr>)
      = Inr (AllOf [StringNode (NewStringSchema\<lparr>Pattern := ''a+''\<rparr>) []], True)"
    by (simp add: schemaForScalar_def GetString_def stringRuleDefs exampleDefs)
  have 4: "\<exists>s req. schemaForScalar exampleLibrary BytesT None = Inr (s, req)"
    using schemaForScalar_fails_iff
      [where lib = exampleLibrary and kind = BytesT and constraints = None,
       OF exampleParse_wellFormed exampleNumeric_returns]
    by (simp add: exampleLibrary_def exampleIsNumeric_def)
  from 1 2 3 4 show ?thesis by blast
qed

text \<open>
  C10: in the string translator a \<open>Contains\<close>, \<open>Prefix\<close> or \<open>Suffix\<close> rule acts by
  being present, whatever its text: the fragment \<open>QuoteMeta c\<close>, \<open>^\<close> followed by
  \<open>QuoteMeta p\<close>, or \<open>QuoteMeta s\<close> followed by \<open>$\<close> is among the collected pattern
  fragments and the required flag returned is the negation of the ignore-empty flag; for
  the empty text the fragments are the empty string, \<open>^\<close> and \<open>$\<close>.  The bytes
  translator sets the required flag for these rules only when they are non-empty.
\<close>

theorem string_rules_act_on_presence:
  assumes "collectStringRules lib (Some r) ignoreEmpty = Inr st"
  shows "(\<forall>c. StringRules_Contains r = Some c \<longrightarrow>
            QuoteMeta c \<in> set (patterns st) \<and> required st = (\<not> ignoreEmpty))
       \<and> (\<forall>p. StringRules_Prefix r = Some p \<longrightarrow>
            ''^'' @ QuoteMeta p \<in> set (patterns st) \<and> required st = (\<not> ignoreEmpty))
       \<and> (\<forall>s. StringRules_Suffix r = Some s \<longrightarrow>
            QuoteMeta s @ ''$'' \<in> set (patterns st) \<and> required st = (\<not> ignoreEmpty))
       \<and> QuoteMeta '''' = ''''
       \<and> schemaForString lib (Some r) ignoreEmpty = Inr (AllOf (mergePatterns st), required st)
       \<and> snd (schemaForBytes (Some emptyBytesRules) ignoreEmpty) = False
       \<and> (BytesRules_Contains b \<noteq> [] \<or> BytesRules_Prefix b \<noteq> [] \<or> BytesRules_Suffix b \<noteq> [] \<longrightarrow>
            snd (schemaForBytes (Some b) ignoreEmpty) = (\<not> ignoreEmpty))"
proof -
  note c = contains_collected [OF assms] and p = prefix_collected [OF assms]
    and s = suffix_collected [OF assms]
  have q: "QuoteMeta '''' = ''''"
    by (simp add: QuoteMeta_def)
  have f: "schemaForString lib (Some r) ignoreEmpty = Inr (AllOf (mergePatterns st), required st)"
    using assms by (simp add: schemaForString_def)
  have b1: "snd (schemaForBytes (Some emptyBytesRules) ignoreEmpty) = False"
    by (simp add: schemaForBytes_def emptyBytesRules_def)
  have b2: "BytesRules_Contains b \<noteq> [] \<or> BytesRules_Prefix b \<noteq> [] \<or> BytesRules_Suffix b \<noteq> [] \<longrightarrow>
            snd (schemaForBytes (Some b) ignoreEmpty) = (\<not> ignoreEmpty)"
    by (auto simp: schemaForBytes_def)
  from c p s q f b1 b2 show ?thesis by blast
qed

theorem string_rules_act_on_presence_witness:
  "schemaForString exampleLibrary
     (Some (emptyStringRules\<lparr>StringRules_Contains := Some '''', StringRules_Prefix := Some '''',
                             StringRules_Suffix := Some ''''\<rparr>)) False
   = Inr (AllOf [StringNode NewStringSchema [],
                 StringNode (NewStringSchema\<lparr>Pattern := ''''\<rparr>) [],
                 StringNode (NewStringSchema\<lparr>Pattern := ''^''\<rparr>) [],
                 StringNode (NewStringSchema\<lparr>Pattern := ''$''\<rparr>) []], True)
   \<and> schemaForBytes (Some emptyBytesRules) False
     = (fst (schemaForBytes None False), False)"
proof -
  have 1: "collectStringRules exampleLibrary
     (Some (emptyStringRules\<lparr>StringRules_Contains := Some '''', StringRules_Prefix := Some '''',
                             StringRules_Suffix := Some ''''\<rparr>)) False
    = Inr \<lparr>schema = NewStringSchema, appended = [], patterns = ['''', ''^'', ''$''],
           required = True\<rparr>"
    by (simp add: stringRuleDefs exampleDefs quoteDefs)
  from string_rules_act_on_presence [OF 1, of emptyBytesRules] show ?thesis
    by (simp add: mergePatterns_def patternSchema_def schemaForBytes_def emptyBytesRules_def)
qed

end
